theory Spec2Isabelle
  imports Complex_Main
begin

section \<open>Errors and strings\<close>

text \<open>
  The module \<^verbatim>\<open>src/utils/misc.py\<close> raises plain \<^verbatim>\<open>Exception(message)\<close> at four
  places. An exception is a value carrying its message; a function that may raise
  returns \<open>error + 'a\<close> with \<open>Inl\<close> for the raise. The specification's error names stand
  for these messages: UnknownProvider for \<^verbatim>\<open>"Unknown model: ..."\<close> (raised by
  \<^verbatim>\<open>get_provider\<close>), UnknownMethod for \<^verbatim>\<open>"Unknown prompting method: ..."\<close> and
  MissingDependency for the request to install the sft package.
  \<^verbatim>\<open>log_result\<close> (lines 96-102) averages and rounds Python floats and prints the
  result; it has no counterpart in this theory.
\<close>

datatype error = Exception string

text \<open>Python's \<^verbatim>\<open>s.startswith(p)\<close>.\<close>

definition startswith :: "string \<Rightarrow> string \<Rightarrow> bool" where
  "startswith s p = (take (length p) s = p)"

text \<open>Python's \<^verbatim>\<open>sep.join(xs)\<close> on a list of strings.\<close>

fun join :: "string \<Rightarrow> string list \<Rightarrow> string" where
  "join sep [] = []"
| "join sep [x] = x"
| "join sep (x # y # ys) = x @ sep @ join sep (y # ys)"

text \<open>Python's \<^verbatim>\<open>str(n)\<close> for a non-negative integer: its decimal digits.\<close>

definition digit :: "nat \<Rightarrow> char" where
  "digit d = ''0123456789'' ! d"

function str :: "nat \<Rightarrow> string" where
  "str n = (if n < 10 then [digit n] else str (n div 10) @ [digit (n mod 10)])"
  by pat_completeness auto
termination
  by (relation "measure id") auto

declare str.simps [simp del]

section \<open>Provider resolution\<close>

text \<open>
  \<^verbatim>\<open>get_provider\<close> (lines 104-114): an \<^verbatim>\<open>if/elif\<close> chain over four prefixes, then the
  raise. It reads nothing but its argument and writes nothing, so it is a function of
  the model string alone.
\<close>

definition get_provider :: "string \<Rightarrow> error + string" where
  "get_provider model =
     (if startswith model ''gpt'' then Inr ''openai''
      else if startswith model ''gemini'' then Inr ''vertexai''
      else if startswith model ''mistral'' then Inr ''mistral''
      else if startswith model ''claude'' then Inr ''anthropic''
      else Inl (Exception (''Unknown model: '' @ model)))"

section \<open>Prompt builder\<close>

text \<open>
  \<^verbatim>\<open>sys_message\<close> and \<^verbatim>\<open>requires_human_message\<close> (lines 117-127) resolve the
  provider first, so they raise what \<^verbatim>\<open>get_provider\<close> raises.
\<close>

definition sys_message :: "string \<Rightarrow> error + string" where
  "sys_message model =
     (case get_provider model of
        Inl e \<Rightarrow> Inl e
      | Inr provider \<Rightarrow> Inr (if provider = ''vertexai'' then ''user'' else ''system''))"

definition requires_human_message :: "string \<Rightarrow> error + bool" where
  "requires_human_message model =
     (case get_provider model of
        Inl e \<Rightarrow> Inl e
      | Inr provider \<Rightarrow> Inr (provider = ''anthropic''))"

text \<open>
  The three string literals of \<^verbatim>\<open>create_die_prompt\<close> (lines 132-142). They are
  templates of the prompt library: \<^verbatim>\<open>{document}\<close> and \<^verbatim>\<open>{format_instructions}\<close> are
  placeholders, and the doubled braces of the third literal are the template's escape
  for one literal brace each.
\<close>

definition sys_prompt_text :: string where
  "sys_prompt_text =
     ''You are a document information extraction system.\<newline>'' @
     ''You are given a document and a json with keys that must be extracted from the document.\<newline>''"

definition doc_prompt_text :: string where
  "doc_prompt_text =
     ''Here is the document:\<newline>{document}\<newline>'' @
     ''{format_instructions}\<newline>''"

definition json_only_text :: string where
  "json_only_text =
     ''Never include natural text in your answer, return a json only! The message must start with {{ and end with }}.\<newline>''"

text \<open>
  \<^verbatim>\<open>create_die_prompt\<close> (lines 130-151) returns the list of (role, template) pairs.
\<close>

definition create_die_prompt :: "string \<Rightarrow> error + (string \<times> string) list" where
  "create_die_prompt model =
     (case get_provider model of
        Inl e \<Rightarrow> Inl e
      | Inr provider \<Rightarrow>
          let sys_prompt = sys_prompt_text;
              doc_prompt = doc_prompt_text;
              doc_prompt = (if provider = ''anthropic'' then doc_prompt @ json_only_text
                            else doc_prompt)
          in (case requires_human_message model of
                Inl e \<Rightarrow> Inl e
              | Inr human \<Rightarrow>
                  if \<not> human then
                    (let sys_prompt = sys_prompt @ doc_prompt
                     in (case sys_message model of
                           Inl e \<Rightarrow> Inl e
                         | Inr role \<Rightarrow> Inr [(role, sys_prompt)]))
                  else
                    (case sys_message model of
                       Inl e \<Rightarrow> Inl e
                     | Inr role \<Rightarrow> Inr [(role, sys_prompt), (''human'', doc_prompt)])))"

section \<open>LLM client factory\<close>

text \<open>
  The four client classes come from the provider libraries; a client is the record of
  the constructor that built it and of its arguments. \<^verbatim>\<open>settings\<close> is the dictionary
  \<^verbatim>\<open>{"temperature": 0.0}\<close>, and the two Mistral arguments are \<^verbatim>\<open>os.environ.get\<close>
  results, \<open>None\<close> when the variable is not set.
\<close>

datatype client =
    ChatOpenAI string "(string \<times> real) list"
  | ChatVertexAI string bool "(string \<times> real) list"
  | ChatMistralAI string "string option" "string option" "(string \<times> real) list"
  | ChatAnthropic string "(string \<times> real) list"

text \<open>
  \<^verbatim>\<open>create_llm\<close> (lines 48-93). The environment is a parameter. The last branch is the
  raise of line 93.
\<close>

definition create_llm :: "(string \<rightharpoonup> string) \<Rightarrow> string \<Rightarrow> error + client" where
  "create_llm environ model =
     (case get_provider model of
        Inl e \<Rightarrow> Inl e
      | Inr provider \<Rightarrow>
          let model = (if model = ''gpt-4-turbo'' then ''gpt-4-1106-preview''
                       else if model = ''claude-3'' then ''claude-3-opus-20240229''
                       else model);
              settings = [(''temperature'', 0)]
          in if provider = ''openai'' then Inr (ChatOpenAI model settings)
             else if provider = ''vertexai'' then Inr (ChatVertexAI model True settings)
             else if provider = ''mistral'' then
               (let endpoint = environ ''MISTRAL_ENDPOINT'';
                    api_key = environ ''MISTRAL_API_KEY''
                in Inr (ChatMistralAI model endpoint api_key settings))
             else if provider = ''anthropic'' then Inr (ChatAnthropic model settings)
             else Inl (Exception (''Unknown provider: '' @ provider)))"

section \<open>Process state\<close>

text \<open>
  The module has one global, \<^verbatim>\<open>invoke_semaphore\<close>, holding \<^verbatim>\<open>None\<close> or a reference to
  an \<^verbatim>\<open>asyncio.Semaphore\<close> object. Objects live in a heap and a reference is an index
  into it, so that "the same object" is "the same reference". A semaphore object is
  its counter of free permits. The state also records, in order, the calls the module
  makes to the outside: an OCR scan of an image, a sleep, an invocation of the chain.
\<close>

record semaphore =
  permits :: nat

datatype 'img event =
    Ocr 'img
  | Sleep nat
  | Invoke client "(string \<times> string) list" string string

record 'img process =
  heap :: "semaphore list"
  invoke_semaphore :: "nat option"
  trace :: "'img event list"

text \<open>The process as the module leaves it after import (line 165).\<close>

definition initial :: "'img process" where
  "initial = \<lparr>heap = [], invoke_semaphore = None, trace = []\<rparr>"

section \<open>Concurrency gate\<close>

text \<open>\<^verbatim>\<open>get_parallelism\<close> (lines 159-163).\<close>

definition get_parallelism :: "string \<Rightarrow> error + nat" where
  "get_parallelism model =
     (case get_provider model of
        Inl e \<Rightarrow> Inl e
      | Inr provider \<Rightarrow> if provider = ''anthropic'' then Inr 1 else Inr 5)"

text \<open>
  \<^verbatim>\<open>get_semaphore\<close> (lines 166-171). \<^verbatim>\<open>asyncio.Semaphore(p)\<close> allocates a new object
  with \<open>p\<close> free permits; the function has no suspension point, so no other task runs
  inside it. When \<^verbatim>\<open>get_parallelism\<close> raises, the global is left as it was.
\<close>

definition get_semaphore :: "string \<Rightarrow> 'img process \<Rightarrow> (error + nat) \<times> 'img process" where
  "get_semaphore model s =
     (case invoke_semaphore s of
        None \<Rightarrow>
          (case get_parallelism model of
             Inl e \<Rightarrow> (Inl e, s)
           | Inr p \<Rightarrow>
               let r = length (heap s)
               in (Inr r, s\<lparr>heap := heap s @ [\<lparr>permits = p\<rparr>], invoke_semaphore := Some r\<rparr>))
      | Some r \<Rightarrow> (Inr r, s))"

text \<open>
  A caller that asks for the gate once for each model of a list, in order: the
  references (or errors) it gets, and the process afterwards.
\<close>

fun get_semaphores :: "string list \<Rightarrow> 'img process \<Rightarrow> (error + nat) list \<times> 'img process" where
  "get_semaphores [] s = ([], s)"
| "get_semaphores (model # models) s =
     (case get_semaphore model s of
        (r, s') \<Rightarrow> (case get_semaphores models s' of (rs, s'') \<Rightarrow> (r # rs, s'')))"

text \<open>
  Entering and leaving \<^verbatim>\<open>async with sem\<close>. \<^verbatim>\<open>acquire\<close> takes a permit when one is
  free; otherwise the task is suspended until another task releases one, and in a run
  of this task alone it does not return: \<open>None\<close>. \<^verbatim>\<open>release\<close> gives the permit back.
  The global only ever holds a reference that \<^verbatim>\<open>get_semaphore\<close> allocated, so the
  reference is inside the heap.
\<close>

definition acquire :: "nat \<Rightarrow> 'img process \<Rightarrow> 'img process option" where
  "acquire r s =
     (if r < length (heap s) \<and> 0 < permits (heap s ! r)
      then Some (s\<lparr>heap := (heap s)[r := \<lparr>permits = permits (heap s ! r) - 1\<rparr>]\<rparr>)
      else None)"

definition release :: "nat \<Rightarrow> 'img process \<Rightarrow> 'img process" where
  "release r s = s\<lparr>heap := (heap s)[r := \<lparr>permits = permits (heap s ! r) + 1\<rparr>]\<rparr>"

section \<open>Document rendering\<close>

text \<open>
  The OCR scanner, the two formatters, the parser and the chain of prompt, client and
  parser are libraries outside the module. They are parameters of the model, total
  functions: what they return is left open, and their own failures are outside this
  development. A fragment of a scan is the wrapper's dictionary with its \<^verbatim>\<open>"text"\<close>
  and its geometry. \<open>sft\<close> is \<open>None\<close> when the import of lines 16-19 failed.
\<close>

record 'g fragment =
  frag_text :: string
  bbox :: 'g

record ('img, 'g, 'parser, 'out, 'd) collaborators =
  ocr :: "'img \<Rightarrow> 'g fragment list"
  img_size :: "'img \<Rightarrow> int \<times> int"
  latin_to_prompt :: "'g fragment list \<Rightarrow> int \<times> int \<Rightarrow> string"
  sft :: "('g fragment list \<Rightarrow> 'img \<Rightarrow> string) option"
  environ :: "string \<rightharpoonup> string"
  get_format_instructions :: "'parser \<Rightarrow> string"
  chain_ainvoke :: "client \<Rightarrow> (string \<times> string) list \<Rightarrow> 'parser \<Rightarrow> string \<Rightarrow> string \<Rightarrow> 'out"
  dict :: "'out \<Rightarrow> 'd"

text \<open>The message of the exception of lines 36-38.\<close>

definition sft_missing_text :: string where
  "sft_missing_text =
     ''Please install the sft package from DeepOpinion in order to use the sft prompting method.''"

text \<open>
  \<^verbatim>\<open>doc_to_prompt\<close> (lines 26-42): the scan comes first, whatever the method, then the
  dispatch on the method.
\<close>

definition doc_to_prompt ::
  "('img, 'g, 'parser, 'out, 'd) collaborators \<Rightarrow> 'img \<Rightarrow> string \<Rightarrow> 'img process
     \<Rightarrow> (error + string) \<times> 'img process" where
  "doc_to_prompt cs img method s =
     (let scan = ocr cs img;
          s = s\<lparr>trace := trace s @ [Ocr img]\<rparr>
      in if method = ''simple'' then (Inr (join '' '' (map frag_text scan)), s)
         else if method = ''latin'' then (Inr (latin_to_prompt cs scan (img_size cs img)), s)
         else if method = ''sft'' then
           (case sft cs of
              None \<Rightarrow> (Inl (Exception sft_missing_text), s)
            | Some to_prompt \<Rightarrow> (Inr (to_prompt scan img), s))
         else (Inl (Exception (''Unknown prompting method: '' @ method)), s))"

section \<open>Inference orchestration\<close>

text \<open>\<^verbatim>\<open>throttle\<close> (lines 154-157): \<^verbatim>\<open>asyncio.sleep(10)\<close> for one provider.\<close>

definition throttle :: "string \<Rightarrow> 'img process \<Rightarrow> (error + unit) \<times> 'img process" where
  "throttle model s =
     (case get_provider model of
        Inl e \<Rightarrow> (Inl e, s)
      | Inr provider \<Rightarrow>
          if provider = ''anthropic'' then (Inr (), s\<lparr>trace := trace s @ [Sleep 10]\<rparr>)
          else (Inr (), s))"

text \<open>
  The \<^verbatim>\<open>images\<close> argument is a list of page images or one image
  (\<^verbatim>\<open>isinstance(images, list)\<close>, line 184).
\<close>

datatype 'img images = Pages "'img list" | Single 'img

text \<open>
  The loop of lines 186-189 over \<^verbatim>\<open>enumerate(images)\<close>: \<open>idx\<close> is the index of the
  next image and \<open>pages\<close> the list built so far. A page that fails to render ends the loop
  with its exception.
\<close>

fun render_pages ::
  "('img, 'g, 'parser, 'out, 'd) collaborators \<Rightarrow> string \<Rightarrow> nat \<Rightarrow> 'img list \<Rightarrow> string list
     \<Rightarrow> 'img process \<Rightarrow> (error + string list) \<times> 'img process" where
  "render_pages cs method idx [] pages s = (Inr pages, s)"
| "render_pages cs method idx (img # imgs) pages s =
     (case doc_to_prompt cs img method s of
        (Inl e, s) \<Rightarrow> (Inl e, s)
      | (Inr page, s) \<Rightarrow>
          let page = ''## Page '' @ str (idx + 1) @ ''\<newline>'' @ page @ ''\<newline>''
          in render_pages cs method (idx + 1) imgs (pages @ [page]) s)"

text \<open>Lines 184-192: the document prompt, for several pages or for one.\<close>

definition generate_prompt ::
  "('img, 'g, 'parser, 'out, 'd) collaborators \<Rightarrow> string \<Rightarrow> 'img images \<Rightarrow> 'img process
     \<Rightarrow> (error + string) \<times> 'img process" where
  "generate_prompt cs method images s =
     (case images of
        Pages imgs \<Rightarrow>
          (case render_pages cs method 0 imgs [] s of
             (Inl e, s) \<Rightarrow> (Inl e, s)
           | (Inr pages, s) \<Rightarrow> (Inr (join ''\<newline>'' pages), s))
      | Single img \<Rightarrow> doc_to_prompt cs img method s)"

text \<open>
  The block under \<^verbatim>\<open>async with\<close> (lines 177-201): client, prompt, document, throttle,
  then the invocation of the chain with the document and the parser's format
  instructions.
\<close>

definition ainvoke_die_body ::
  "('img, 'g, 'parser, 'out, 'd) collaborators \<Rightarrow> string \<Rightarrow> string \<Rightarrow> 'parser \<Rightarrow> 'img images
     \<Rightarrow> 'img process \<Rightarrow> (error + 'out) \<times> 'img process" where
  "ainvoke_die_body cs model method parser images s =
     (case create_llm (environ cs) model of
        Inl e \<Rightarrow> (Inl e, s)
      | Inr llm \<Rightarrow>
          (case create_die_prompt model of
             Inl e \<Rightarrow> (Inl e, s)
           | Inr die_prompt \<Rightarrow>
               (case generate_prompt cs method images s of
                  (Inl e, s) \<Rightarrow> (Inl e, s)
                | (Inr doc_prompt, s) \<Rightarrow>
                    (case throttle model s of
                       (Inl e, s) \<Rightarrow> (Inl e, s)
                     | (Inr u, s) \<Rightarrow>
                         let format_instructions = get_format_instructions cs parser;
                             s = s\<lparr>trace := trace s @
                                   [Invoke llm die_prompt doc_prompt format_instructions]\<rparr>
                         in (Inr (chain_ainvoke cs llm die_prompt parser doc_prompt
                                    format_instructions), s)))))"

text \<open>
  \<^verbatim>\<open>ainvoke_die\<close> (lines 174-205). The permit is released when the block is left, by
  return or by exception. The result is \<open>None\<close> when the task, run alone, stays suspended
  at the gate.
\<close>

definition ainvoke_die ::
  "('img, 'g, 'parser, 'out, 'd) collaborators \<Rightarrow> string \<Rightarrow> string \<Rightarrow> 'parser \<Rightarrow> 'img images
     \<Rightarrow> 'img process \<Rightarrow> ((error + 'd) \<times> 'img process) option" where
  "ainvoke_die cs model method parser images s =
     (case get_semaphore model s of
        (Inl e, s) \<Rightarrow> Some (Inl e, s)
      | (Inr sem, s) \<Rightarrow>
          (case acquire sem s of
             None \<Rightarrow> None
           | Some s \<Rightarrow>
               (case ainvoke_die_body cs model method parser images s of
                  (Inl e, s) \<Rightarrow> Some (Inl e, release sem s)
                | (Inr output, s) \<Rightarrow> Some (Inr (dict cs output), release sem s))))"

text \<open>The delays of a trace, in order: the arguments of its sleeps.\<close>

fun delays :: "'img event list \<Rightarrow> nat list" where
  "delays [] = []"
| "delays (Sleep n # es) = n # delays es"
| "delays (e # es) = delays es"

text \<open>
  The gate lets the next task in at once: it is not yet created, or it has a free
  permit.
\<close>

definition gate_open :: "'img process \<Rightarrow> bool" where
  "gate_open s =
     (case invoke_semaphore s of
        None \<Rightarrow> True
      | Some r \<Rightarrow> r < length (heap s) \<and> 0 < permits (heap s ! r))"

text \<open>The images a call hands to the renderer, in order.\<close>

fun pages_of :: "'img images \<Rightarrow> 'img list" where
  "pages_of (Pages imgs) = imgs"
| "pages_of (Single img) = [img]"

section \<open>The multi-page document as the specification words it\<close>

text \<open>
  The specification: the pages are concatenated as blocks \<^verbatim>\<open>"## Page {n}\n{page_text}\n"\<close>
  separated by blank lines, \<open>n\<close> starting at 1. \<open>spec_block\<close> is one block and
  \<open>spec_blocks n\<close> is the list of the blocks of the page texts numbered from \<open>n\<close>, and
  \<open>spec_document n\<close> lays them out with one newline, the blank line, between a block and
  the next.
\<close>

definition spec_block :: "nat \<Rightarrow> string \<Rightarrow> string" where
  "spec_block n page_text = ''## Page '' @ str n @ ''\<newline>'' @ page_text @ ''\<newline>''"

fun spec_blocks :: "nat \<Rightarrow> string list \<Rightarrow> string list" where
  "spec_blocks n [] = []"
| "spec_blocks n (page_text # texts) = spec_block n page_text # spec_blocks (Suc n) texts"

fun spec_document :: "nat \<Rightarrow> string list \<Rightarrow> string" where
  "spec_document n [] = []"
| "spec_document n [page_text] = spec_block n page_text"
| "spec_document n (page_text # next_text # texts) =
     spec_block n page_text @ ''\<newline>'' @ spec_document (Suc n) (next_text # texts)"

section \<open>Collaborators for concrete runs\<close>

text \<open>
  A scanner, formatters, parser and chain on which the model can be evaluated: an
  image is the list of the texts printed on it, the scan returns them in that order,
  the optional sft formatter is not installed, no environment variable is set, and the
  chain answers with the document it was given.
\<close>

definition printed_texts :: "(string list, unit, unit, string, string) collaborators" where
  "printed_texts =
     \<lparr>ocr = map (\<lambda>t. \<lparr>frag_text = t, bbox = ()\<rparr>),
      img_size = (\<lambda>img. (0, 0)),
      latin_to_prompt = (\<lambda>scan size. concat (map frag_text scan)),
      sft = None,
      environ = Map.empty,
      get_format_instructions = (\<lambda>parser. ''{}''),
      chain_ainvoke = (\<lambda>llm prompt parser document format_instructions. document),
      dict = (\<lambda>output. output)\<rparr>"

section \<open>Auxiliary facts\<close>

lemma startswithD: "startswith m p \<Longrightarrow> m = p @ drop (length p) m"
  by (metis append_take_drop_id startswith_def)

lemma startswith_gpt_excl:
  "startswith m ''gpt'' \<Longrightarrow>
     \<not> startswith m ''gemini'' \<and> \<not> startswith m ''mistral'' \<and> \<not> startswith m ''claude''"
proof -
  assume "startswith m ''gpt''"
  then obtain r where "m = ''gpt'' @ r" using startswithD by blast
  then show ?thesis by (simp add: startswith_def)
qed

lemma startswith_gemini_excl:
  "startswith m ''gemini'' \<Longrightarrow>
     \<not> startswith m ''gpt'' \<and> \<not> startswith m ''mistral'' \<and> \<not> startswith m ''claude''"
proof -
  assume "startswith m ''gemini''"
  then obtain r where "m = ''gemini'' @ r" using startswithD by blast
  then show ?thesis by (simp add: startswith_def)
qed

lemma startswith_mistral_excl:
  "startswith m ''mistral'' \<Longrightarrow>
     \<not> startswith m ''gpt'' \<and> \<not> startswith m ''gemini'' \<and> \<not> startswith m ''claude''"
proof -
  assume "startswith m ''mistral''"
  then obtain r where "m = ''mistral'' @ r" using startswithD by blast
  then show ?thesis by (simp add: startswith_def)
qed

lemma startswith_claude_excl:
  "startswith m ''claude'' \<Longrightarrow>
     \<not> startswith m ''gpt'' \<and> \<not> startswith m ''gemini'' \<and> \<not> startswith m ''mistral''"
proof -
  assume "startswith m ''claude''"
  then obtain r where "m = ''claude'' @ r" using startswithD by blast
  then show ?thesis by (simp add: startswith_def)
qed

lemma get_provider_cases:
  "get_provider model = Inl (Exception (''Unknown model: '' @ model)) \<or>
   get_provider model = Inr ''openai'' \<or> get_provider model = Inr ''vertexai'' \<or>
   get_provider model = Inr ''mistral'' \<or> get_provider model = Inr ''anthropic''"
  by (simp add: get_provider_def)


lemma get_semaphore_existing:
  "invoke_semaphore s = Some r \<Longrightarrow> get_semaphore model s = (Inr r, s)"
  by (simp add: get_semaphore_def)

lemma get_semaphores_existing:
  "invoke_semaphore s = Some r \<Longrightarrow> get_semaphores models s = (map (\<lambda>model. Inr r) models, s)"
  by (induction models) (simp_all add: get_semaphore_existing)

lemma get_semaphore_heap_le:
  "length (heap (snd (get_semaphore model s))) \<le> Suc (length (heap s))"
  by (simp add: get_semaphore_def Let_def split: option.split sum.split)

lemma get_semaphores_heap_le:
  "length (heap (snd (get_semaphores models s))) \<le> Suc (length (heap s))"
proof (induction models arbitrary: s)
  case Nil
  then show ?case by simp
next
  case (Cons model models)
  obtain r s' where step: "get_semaphore model s = (r, s')"
    by (cases "get_semaphore model s")
  show ?case
  proof (cases "invoke_semaphore s'")
    case None
    then have "heap s' = heap s"
      using step by (auto simp: get_semaphore_def Let_def split: option.splits sum.splits)
    then show ?thesis
      using Cons.IH [of s'] step by (cases "get_semaphores models s'") simp
  next
    case (Some q)
    then have "get_semaphores models s' = (map (\<lambda>model. Inr q) models, s')"
      by (rule get_semaphores_existing)
    then show ?thesis
      using step get_semaphore_heap_le [of model s] by simp
  qed
qed

lemma join_Cons: "join sep (x # xs) = x @ concat (map (\<lambda>y. sep @ y) xs)"
  by (induction xs arbitrary: x) simp_all

lemma doc_to_prompt_snd:
  "snd (doc_to_prompt cs img method s) = s\<lparr>trace := trace s @ [Ocr img]\<rparr>"
  by (simp add: doc_to_prompt_def Let_def split: option.split)

lemma doc_to_prompt_fst:
  "fst (doc_to_prompt cs img method s) = fst (doc_to_prompt cs img method s')"
  by (simp add: doc_to_prompt_def Let_def split: option.split)

lemma doc_to_prompt_eq:
  "fst (doc_to_prompt cs img method s0) = r \<Longrightarrow>
     doc_to_prompt cs img method s = (r, s\<lparr>trace := trace s @ [Ocr img]\<rparr>)"
  using doc_to_prompt_snd [of cs img "method" s] doc_to_prompt_fst [of cs img "method" s s0]
  by (cases "doc_to_prompt cs img method s") simp

lemma render_pages_ok:
  "map (\<lambda>img. fst (doc_to_prompt cs img method s0)) imgs = map Inr texts \<Longrightarrow>
     render_pages cs method idx imgs pages s =
       (Inr (pages @ spec_blocks (Suc idx) texts), s\<lparr>trace := trace s @ map Ocr imgs\<rparr>)"
proof (induction imgs arbitrary: idx pages s texts)
  case Nil
  then show ?case by simp
next
  case (Cons img imgs)
  from Cons.prems obtain t ts where texts: "texts = t # ts"
    and t: "fst (doc_to_prompt cs img method s0) = Inr t"
    and ts: "map (\<lambda>img. fst (doc_to_prompt cs img method s0)) imgs = map Inr ts"
    by (cases texts) auto
  have step: "doc_to_prompt cs img method s = (Inr t, s\<lparr>trace := trace s @ [Ocr img]\<rparr>)"
    using t by (rule doc_to_prompt_eq)
  show ?case
    unfolding texts
    using Cons.IH [OF ts, of "Suc idx"] step
    by (simp add: spec_block_def)
qed

lemma join_spec_blocks: "join ''\<newline>'' (spec_blocks n texts) = spec_document n texts"
  by (induction n texts rule: spec_document.induct) simp_all

lemma generate_prompt_pages:
  assumes "map (\<lambda>img. fst (doc_to_prompt cs img method s)) imgs = map Inr texts"
  shows "generate_prompt cs method (Pages imgs) s =
     (Inr (spec_document 1 texts), s\<lparr>trace := trace s @ map Ocr imgs\<rparr>)"
  using render_pages_ok [OF assms, of 0 "[]" s]
  by (simp add: generate_prompt_def join_spec_blocks)

lemma render_pages_fst:
  "fst (render_pages cs method idx imgs pages s) = fst (render_pages cs method idx imgs pages s')"
proof (induction imgs arbitrary: idx pages s s')
  case Nil
  then show ?case by simp
next
  case (Cons img imgs)
  obtain r where r: "fst (doc_to_prompt cs img method s) = r" by simp
  show ?case
    using Cons.IH
    by (simp add: doc_to_prompt_eq [OF r, of s] doc_to_prompt_eq [OF r, of s'] split: sum.split)
qed

lemma render_pages_delays:
  "delays (trace (snd (render_pages cs method idx imgs pages s))) = delays (trace s)"
proof (induction imgs arbitrary: idx pages s)
  case Nil
  then show ?case by simp
next
  case (Cons img imgs)
  obtain r where r: "fst (doc_to_prompt cs img method s) = r" by simp
  have d: "delays (es @ [Ocr img]) = delays es" for es :: "'a event list"
    by (induction es rule: delays.induct) simp_all
  show ?case
    using Cons.IH
    by (simp add: doc_to_prompt_eq [OF r, of s] d split: sum.split)
qed

lemma delays_append: "delays (es @ fs) = delays es @ delays fs"
  by (induction es rule: delays.induct) simp_all


lemma render_pages_trace:
  "render_pages cs method idx imgs pages s = (Inr ps, s') \<Longrightarrow> trace s' = trace s @ map Ocr imgs"
proof (induction imgs arbitrary: idx pages s)
  case Nil
  then show ?case by simp
next
  case (Cons img imgs)
  obtain r where r: "fst (doc_to_prompt cs img method s) = r" by simp
  show ?case
  proof (cases r)
    case (Inl e)
    then show ?thesis
      using Cons.prems by (simp add: doc_to_prompt_eq [OF r, of s])
  next
    case (Inr t)
    then show ?thesis
      using Cons.prems Cons.IH
      by (simp add: doc_to_prompt_eq [OF r, of s])
  qed
qed

lemma generate_prompt_fst:
  "fst (generate_prompt cs method images s) = fst (generate_prompt cs method images s')"
proof (cases images)
  case (Pages imgs)
  show ?thesis
    using render_pages_fst [of cs "method" 0 imgs "[]" s s']
    by (simp add: generate_prompt_def Pages split: prod.split sum.split) auto
next
  case (Single img)
  then show ?thesis
    using doc_to_prompt_fst [of cs img "method" s s'] by (simp add: generate_prompt_def)
qed

lemma generate_prompt_delays:
  "delays (trace (snd (generate_prompt cs method images s))) = delays (trace s)"
proof (cases images)
  case (Pages imgs)
  show ?thesis
    using render_pages_delays [of cs "method" 0 imgs "[]" s]
    by (simp add: generate_prompt_def Pages split: prod.split sum.split) auto
next
  case (Single img)
  then show ?thesis
    by (simp add: generate_prompt_def doc_to_prompt_snd delays_append)
qed

lemma generate_prompt_trace:
  "generate_prompt cs method images s = (Inr doc, s') \<Longrightarrow>
     trace s' = trace s @ map Ocr (pages_of images)"
proof (cases images)
  case (Pages imgs)
  assume "generate_prompt cs method images s = (Inr doc, s')"
  then show ?thesis
    using render_pages_trace [of cs "method" 0 imgs "[]" s]
    by (auto simp: generate_prompt_def Pages split: prod.splits sum.splits)
next
  case (Single img)
  assume "generate_prompt cs method images s = (Inr doc, s')"
  then show ?thesis
    using doc_to_prompt_snd [of cs img "method" s] by (auto simp: generate_prompt_def Single)
qed

lemma create_llm_ok:
  "get_provider model = Inr provider \<Longrightarrow> \<exists>llm. create_llm env model = Inr llm"
  using get_provider_cases [of model]
  by (elim disjE) (simp_all add: create_llm_def Let_def)

lemma create_die_prompt_ok:
  "get_provider model = Inr provider \<Longrightarrow> \<exists>prompt. create_die_prompt model = Inr prompt"
  by (simp add: create_die_prompt_def requires_human_message_def sys_message_def Let_def)

lemma ainvoke_die_body_run:
  assumes "create_llm (environ cs) model = Inr llm" and "create_die_prompt model = Inr prompt"
    and "get_provider model = Inr provider"
  shows "ainvoke_die_body cs model method parser images s =
     (case generate_prompt cs method images s of
        (Inl e, s2) \<Rightarrow> (Inl e, s2)
      | (Inr doc, s2) \<Rightarrow>
          (Inr (chain_ainvoke cs llm prompt parser doc (get_format_instructions cs parser)),
           s2\<lparr>trace := trace s2 @ (if provider = ''anthropic'' then [Sleep 10] else []) @
              [Invoke llm prompt doc (get_format_instructions cs parser)]\<rparr>))"
  using assms
  by (simp add: ainvoke_die_body_def throttle_def Let_def split: prod.split sum.split)


lemma gate_enter:
  assumes "gate_open s" and "get_provider model = Inr provider"
  shows "\<exists>r s0 s1. get_semaphore model s = (Inr r, s0) \<and> acquire r s0 = Some s1 \<and>
     trace s1 = trace s"
proof (cases "invoke_semaphore s")
  case None
  then show ?thesis
    using assms(2)
    by (simp add: get_semaphore_def get_parallelism_def Let_def acquire_def nth_append)
next
  case (Some r)
  then show ?thesis
    using assms(1) by (simp add: get_semaphore_def gate_open_def acquire_def)
qed

lemma trace_release: "trace (release r s) = trace s"
  by (simp add: release_def)

lemma ainvoke_die_run:
  assumes "gate_open s" and "get_provider model = Inr provider"
  shows "\<exists>llm prompt s'.
     create_llm (environ cs) model = Inr llm \<and> create_die_prompt model = Inr prompt \<and>
     (case fst (generate_prompt cs method images s) of
        Inl e \<Rightarrow>
          ainvoke_die cs model method parser images s = Some (Inl e, s') \<and>
          delays (trace s') = delays (trace s)
      | Inr doc \<Rightarrow>
          ainvoke_die cs model method parser images s =
            Some (Inr (dict cs (chain_ainvoke cs llm prompt parser doc
                                  (get_format_instructions cs parser))), s') \<and>
          trace s' = trace s @ map Ocr (pages_of images) @
            (if provider = ''anthropic'' then [Sleep 10] else []) @
            [Invoke llm prompt doc (get_format_instructions cs parser)])"
proof -
  obtain llm where llm: "create_llm (environ cs) model = Inr llm"
    using create_llm_ok [OF assms(2)] by blast
  obtain prompt where prompt: "create_die_prompt model = Inr prompt"
    using create_die_prompt_ok [OF assms(2)] by blast
  obtain r s0 s1 where gate: "get_semaphore model s = (Inr r, s0)"
    and acq: "acquire r s0 = Some s1" and tr: "trace s1 = trace s"
    using gate_enter [OF assms] by blast
  obtain g s2 where gen: "generate_prompt cs method images s1 = (g, s2)"
    by (cases "generate_prompt cs method images s1")
  have g: "fst (generate_prompt cs method images s) = g"
    using generate_prompt_fst [of cs "method" images s s1] gen by simp
  have d: "delays (trace s2) = delays (trace s)"
    using generate_prompt_delays [of cs "method" images s1] gen tr by simp
  note body = ainvoke_die_body_run [OF llm prompt assms(2), of "method" parser images s1]
  show ?thesis
  proof (cases g)
    case (Inl e)
    have "ainvoke_die cs model method parser images s = Some (Inl e, release r s2)"
      using gate acq body gen Inl by (simp add: ainvoke_die_def)
    then show ?thesis
      using llm prompt g Inl d by (simp add: trace_release)
  next
    case (Inr doc)
    have t2: "trace s2 = trace s @ map Ocr (pages_of images)"
      using generate_prompt_trace [of cs "method" images s1 doc s2] gen Inr tr by simp
    have "ainvoke_die cs model method parser images s =
        Some (Inr (dict cs (chain_ainvoke cs llm prompt parser doc
                              (get_format_instructions cs parser))),
              release r (s2\<lparr>trace := trace s2 @ (if provider = ''anthropic'' then [Sleep 10] else []) @
                [Invoke llm prompt doc (get_format_instructions cs parser)]\<rparr>))"
      using gate acq body gen Inr by (simp add: ainvoke_die_def)
    then show ?thesis
      using llm prompt g Inr t2 by (simp add: trace_release)
  qed
qed


lemma render_pages_frame:
  "heap (snd (render_pages cs method idx imgs pages s)) = heap s \<and>
   invoke_semaphore (snd (render_pages cs method idx imgs pages s)) = invoke_semaphore s"
proof (induction imgs arbitrary: idx pages s)
  case Nil
  then show ?case by simp
next
  case (Cons img imgs)
  obtain r where r: "fst (doc_to_prompt cs img method s) = r" by simp
  show ?case
    using Cons.IH
    by (simp add: doc_to_prompt_eq [OF r, of s] split: sum.split)
qed

lemma generate_prompt_frame:
  "heap (snd (generate_prompt cs method images s)) = heap s \<and>
   invoke_semaphore (snd (generate_prompt cs method images s)) = invoke_semaphore s"
proof (cases images)
  case (Pages imgs)
  show ?thesis
    using render_pages_frame [of cs "method" 0 imgs "[]" s]
    by (simp add: generate_prompt_def Pages split: prod.split sum.split) auto
next
  case (Single img)
  then show ?thesis
    by (simp add: generate_prompt_def doc_to_prompt_snd)
qed

lemma ainvoke_die_body_frame:
  "heap (snd (ainvoke_die_body cs model method parser images s)) = heap s \<and>
   invoke_semaphore (snd (ainvoke_die_body cs model method parser images s)) = invoke_semaphore s"
  using generate_prompt_frame [of cs "method" images s]
  by (auto simp: ainvoke_die_body_def throttle_def Let_def split: sum.split prod.split)

lemma ainvoke_die_gate_kept:
  assumes "invoke_semaphore s = Some r"
    and "ainvoke_die cs model method parser images s = Some (result, s')"
  shows "invoke_semaphore s' = Some r \<and> length (heap s') = length (heap s)"
proof -
  from assms obtain s1 where acq: "acquire r s = Some s1"
    by (auto simp: ainvoke_die_def get_semaphore_def split: option.splits)
  then have s1: "invoke_semaphore s1 = Some r" "length (heap s1) = length (heap s)"
    using assms(1) by (auto simp: acquire_def split: if_splits)
  obtain b s2 where body: "ainvoke_die_body cs model method parser images s1 = (b, s2)"
    by (cases "ainvoke_die_body cs model method parser images s1")
  then have s2: "invoke_semaphore s2 = Some r" "length (heap s2) = length (heap s)"
    using ainvoke_die_body_frame [of cs model "method" parser images s1] s1 by simp_all
  have "s' = release r s2"
    using assms acq body by (auto simp: ainvoke_die_def get_semaphore_def split: sum.splits)
  then show ?thesis
    using s2 by (simp add: release_def)
qed

section \<open>The concurrency gate is created once\<close>

text \<open>
  Claim C1. The gate is created at most once in a process. A call of \<^verbatim>\<open>get_semaphore\<close>
  that finds the global empty, for a model of a recognized provider, allocates a new
  semaphore with 1 permit when the provider is anthropic and 5 permits otherwise, and
  stores its reference in the global. A call that finds a reference in the global
  returns that reference and leaves the process as it is, whatever model it is given,
  recognized or not; so does every call of any later sequence of calls. Any sequence
  of calls allocates at most one object, and a call of \<^verbatim>\<open>ainvoke_die\<close> that finds a
  reference in the global leaves it there and allocates nothing.
\<close>

theorem get_semaphore_once:
  "(invoke_semaphore s = None \<and> get_provider model = Inr provider \<longrightarrow>
      get_semaphore model s =
        (Inr (length (heap s)),
         s\<lparr>heap := heap s @ [\<lparr>permits = (if provider = ''anthropic'' then 1 else 5)\<rparr>],
           invoke_semaphore := Some (length (heap s))\<rparr>)) \<and>
   (invoke_semaphore s = Some r \<longrightarrow> get_semaphore later s = (Inr r, s)) \<and>
   (invoke_semaphore s = Some r \<longrightarrow>
      get_semaphores models s = (map (\<lambda>model. Inr r) models, s)) \<and>
   length (heap (snd (get_semaphores models s))) \<le> Suc (length (heap s)) \<and>
   (invoke_semaphore s = Some r \<and>
    ainvoke_die cs caller method parser images s = Some (result, s') \<longrightarrow>
      invoke_semaphore s' = Some r \<and> length (heap s') = length (heap s))"
proof (intro conjI impI)
  assume "invoke_semaphore s = None \<and> get_provider model = Inr provider"
  then show "get_semaphore model s =
        (Inr (length (heap s)),
         s\<lparr>heap := heap s @ [\<lparr>permits = (if provider = ''anthropic'' then 1 else 5)\<rparr>],
           invoke_semaphore := Some (length (heap s))\<rparr>)"
    by (simp add: get_semaphore_def get_parallelism_def Let_def)
next
  assume "invoke_semaphore s = Some r"
  then show "get_semaphore later s = (Inr r, s)" by (rule get_semaphore_existing)
next
  assume "invoke_semaphore s = Some r"
  then show "get_semaphores models s = (map (\<lambda>model. Inr r) models, s)"
    by (rule get_semaphores_existing)
next
  show "length (heap (snd (get_semaphores models s))) \<le> Suc (length (heap s))"
    by (rule get_semaphores_heap_le)
next
  assume h: "invoke_semaphore s = Some r \<and>
    ainvoke_die cs caller method parser images s = Some (result, s')"
  then have a: "invoke_semaphore s = Some r"
    and b: "ainvoke_die cs caller method parser images s = Some (result, s')"
    by simp_all
  from ainvoke_die_gate_kept [OF a b] show "invoke_semaphore s' = Some r" by simp
  from ainvoke_die_gate_kept [OF a b] show "length (heap s') = length (heap s)" by simp
qed

theorem get_semaphore_once_witness:
  "invoke_semaphore (initial :: string list process) = None \<and>
   get_provider ''claude-3'' = Inr ''anthropic'' \<and>
   get_semaphore ''claude-3'' (initial :: string list process) =
     (Inr 0, \<lparr>heap = [\<lparr>permits = 1\<rparr>], invoke_semaphore = Some 0, trace = []\<rparr>) \<and>
   get_provider ''gpt-4'' = Inr ''openai'' \<and>
   get_semaphore ''gpt-4'' (initial :: string list process) =
     (Inr 0, \<lparr>heap = [\<lparr>permits = 5\<rparr>], invoke_semaphore = Some 0, trace = []\<rparr>) \<and>
   invoke_semaphore \<lparr>heap = [\<lparr>permits = 1\<rparr>], invoke_semaphore = Some 0,
     trace = [] :: string list event list\<rparr> = Some 0 \<and>
   get_semaphore ''gpt-4'' \<lparr>heap = [\<lparr>permits = 1\<rparr>], invoke_semaphore = Some 0,
     trace = [] :: string list event list\<rparr> =
     (Inr 0, \<lparr>heap = [\<lparr>permits = 1\<rparr>], invoke_semaphore = Some 0, trace = []\<rparr>) \<and>
   get_semaphores [''gpt-4'', ''llama-2'', ''claude-3'']
     \<lparr>heap = [\<lparr>permits = 1\<rparr>], invoke_semaphore = Some 0, trace = [] :: string list event list\<rparr> =
     ([Inr 0, Inr 0, Inr 0],
      \<lparr>heap = [\<lparr>permits = 1\<rparr>], invoke_semaphore = Some 0, trace = []\<rparr>) \<and>
   ainvoke_die printed_texts ''gpt-4'' ''simple'' () (Single [''A''])
     \<lparr>heap = [\<lparr>permits = 1\<rparr>], invoke_semaphore = Some 0, trace = []\<rparr> =
     Some (Inr ''A'',
       \<lparr>heap = [\<lparr>permits = 1\<rparr>], invoke_semaphore = Some 0,
        trace = [Ocr [''A''],
          Invoke (ChatOpenAI ''gpt-4'' [(''temperature'', 0)])
            [(''system'', sys_prompt_text @ doc_prompt_text)] ''A'' ''{}'']\<rparr>)"
proof -
  let ?s1 = "\<lparr>heap = [\<lparr>permits = 1\<rparr>], invoke_semaphore = Some 0,
     trace = [] :: string list event list\<rparr>"
  let ?s2 = "\<lparr>heap = [\<lparr>permits = 1\<rparr>], invoke_semaphore = Some 0,
        trace = [Ocr [''A''],
          Invoke (ChatOpenAI ''gpt-4'' [(''temperature'', 0)])
            [(''system'', sys_prompt_text @ doc_prompt_text)] ''A'' ''{}'']\<rparr>"
  have a: "get_provider ''claude-3'' = Inr ''anthropic''"
    by (simp add: get_provider_def startswith_def)
  have g: "get_provider ''gpt-4'' = Inr ''openai''"
    by (simp add: get_provider_def startswith_def)
  have n: "invoke_semaphore (initial :: string list process) = None"
    by (simp add: initial_def)
  have k: "ainvoke_die printed_texts ''gpt-4'' ''simple'' () (Single [''A'']) ?s1 =
      Some (Inr ''A'', ?s2)"
    by (simp add: ainvoke_die_def get_semaphore_def acquire_def release_def
        ainvoke_die_body_def create_llm_def create_die_prompt_def requires_human_message_def
        sys_message_def generate_prompt_def doc_to_prompt_def throttle_def get_provider_def
        startswith_def printed_texts_def Let_def)
  show ?thesis
    using a g n k
      get_semaphore_once [of "initial :: string list process" "''claude-3''" "''anthropic''"]
      get_semaphore_once [of "initial :: string list process" "''gpt-4''" "''openai''"]
      get_semaphore_once [of ?s1 _ _ 0 "''gpt-4''" "[''gpt-4'', ''llama-2'', ''claude-3'']"
        printed_texts "''gpt-4''" "''simple''" "()" "Single [''A'']" "Inr ''A''" ?s2]
    by (simp add: initial_def del: get_semaphores.simps)
qed

section \<open>Provider resolution by prefix\<close>

text \<open>
  Claim C2. For every model string, \<^verbatim>\<open>get_provider\<close> returns "openai" when the string
  starts with "gpt", "vertexai" when it starts with "gemini", "mistral" when it starts
  with "mistral", "anthropic" when it starts with "claude", and raises the unknown-model
  exception for every other string. The result depends on the model string only: the
  function takes no state and returns none.
\<close>

theorem get_provider_prefixes:
  "(startswith model ''gpt'' \<longrightarrow> get_provider model = Inr ''openai'') \<and>
   (startswith model ''gemini'' \<longrightarrow> get_provider model = Inr ''vertexai'') \<and>
   (startswith model ''mistral'' \<longrightarrow> get_provider model = Inr ''mistral'') \<and>
   (startswith model ''claude'' \<longrightarrow> get_provider model = Inr ''anthropic'') \<and>
   (\<not> startswith model ''gpt'' \<and> \<not> startswith model ''gemini'' \<and>
    \<not> startswith model ''mistral'' \<and> \<not> startswith model ''claude'' \<longrightarrow>
      get_provider model = Inl (Exception (''Unknown model: '' @ model)))"
proof (intro conjI impI)
  assume "startswith model ''gpt''"
  then show "get_provider model = Inr ''openai''"
    by (simp add: get_provider_def)
next
  assume h: "startswith model ''gemini''"
  from startswith_gemini_excl [OF h] h show "get_provider model = Inr ''vertexai''"
    by (simp add: get_provider_def)
next
  assume h: "startswith model ''mistral''"
  from startswith_mistral_excl [OF h] h show "get_provider model = Inr ''mistral''"
    by (simp add: get_provider_def)
next
  assume h: "startswith model ''claude''"
  from startswith_claude_excl [OF h] h show "get_provider model = Inr ''anthropic''"
    by (simp add: get_provider_def)
next
  assume "\<not> startswith model ''gpt'' \<and> \<not> startswith model ''gemini'' \<and>
    \<not> startswith model ''mistral'' \<and> \<not> startswith model ''claude''"
  then show "get_provider model = Inl (Exception (''Unknown model: '' @ model))"
    by (simp add: get_provider_def)
qed

theorem get_provider_prefixes_witness:
  "startswith ''gpt-4-turbo'' ''gpt'' \<and> get_provider ''gpt-4-turbo'' = Inr ''openai'' \<and>
   startswith ''gemini-pro'' ''gemini'' \<and> get_provider ''gemini-pro'' = Inr ''vertexai'' \<and>
   startswith ''mistral-large'' ''mistral'' \<and> get_provider ''mistral-large'' = Inr ''mistral'' \<and>
   startswith ''claude-3'' ''claude'' \<and> get_provider ''claude-3'' = Inr ''anthropic'' \<and>
   \<not> startswith ''llama-2'' ''gpt'' \<and> \<not> startswith ''llama-2'' ''gemini'' \<and>
   \<not> startswith ''llama-2'' ''mistral'' \<and> \<not> startswith ''llama-2'' ''claude'' \<and>
   get_provider ''llama-2'' = Inl (Exception ''Unknown model: llama-2'')"
  using get_provider_prefixes [of "''gpt-4-turbo''"] get_provider_prefixes [of "''gemini-pro''"]
    get_provider_prefixes [of "''mistral-large''"] get_provider_prefixes [of "''claude-3''"]
    get_provider_prefixes [of "''llama-2''"]
  by (simp add: startswith_def)

section \<open>The document prompt of one call\<close>

text \<open>
  Claim C3. In \<^verbatim>\<open>ainvoke_die\<close>, for a list of images whose pages render to the texts
  \<open>texts\<close>, the images are scanned in the order of the list and the document prompt is
  the document of the specification: the blocks \<^verbatim>\<open>"## Page {n}\n{page_text}\n"\<close>, numbered
  from 1, with a blank line between them. That document is the one handed to the chain.
  For a single image the document prompt is what \<^verbatim>\<open>doc_to_prompt\<close> returns for it, with
  no header. The last conjunct spells out the document of two pages.
\<close>

theorem generate_prompt_document:
  "(map (\<lambda>img. fst (doc_to_prompt cs img method s)) imgs = map Inr texts \<longrightarrow>
      generate_prompt cs method (Pages imgs) s =
        (Inr (spec_document 1 texts), s\<lparr>trace := trace s @ map Ocr imgs\<rparr>)) \<and>
   (map (\<lambda>img. fst (doc_to_prompt cs img method s)) imgs = map Inr texts \<and>
    gate_open s \<and> get_provider model = Inr provider \<longrightarrow>
      (\<exists>llm prompt s'.
         ainvoke_die cs model method parser (Pages imgs) s =
           Some (Inr (dict cs (chain_ainvoke cs llm prompt parser (spec_document 1 texts)
                                 (get_format_instructions cs parser))), s') \<and>
         trace s' = trace s @ map Ocr imgs @
           (if provider = ''anthropic'' then [Sleep 10] else []) @
           [Invoke llm prompt (spec_document 1 texts) (get_format_instructions cs parser)])) \<and>
   generate_prompt cs method (Single img) s = doc_to_prompt cs img method s \<and>
   spec_document 1 [first_text, second_text] =
     ''## Page 1\<newline>'' @ first_text @ ''\<newline>\<newline>## Page 2\<newline>'' @ second_text @ ''\<newline>''"
proof (intro conjI impI)
  assume "map (\<lambda>img. fst (doc_to_prompt cs img method s)) imgs = map Inr texts"
  then show "generate_prompt cs method (Pages imgs) s =
      (Inr (spec_document 1 texts), s\<lparr>trace := trace s @ map Ocr imgs\<rparr>)"
    by (rule generate_prompt_pages)
next
  assume h: "map (\<lambda>img. fst (doc_to_prompt cs img method s)) imgs = map Inr texts \<and>
    gate_open s \<and> get_provider model = Inr provider"
  then have doc: "fst (generate_prompt cs method (Pages imgs) s) = Inr (spec_document 1 texts)"
    by (simp add: generate_prompt_pages)
  from h have "gate_open s" and "get_provider model = Inr provider" by simp_all
  from ainvoke_die_run [OF this, of cs "method" parser "Pages imgs"]
  show "\<exists>llm prompt s'.
         ainvoke_die cs model method parser (Pages imgs) s =
           Some (Inr (dict cs (chain_ainvoke cs llm prompt parser (spec_document 1 texts)
                                 (get_format_instructions cs parser))), s') \<and>
         trace s' = trace s @ map Ocr imgs @
           (if provider = ''anthropic'' then [Sleep 10] else []) @
           [Invoke llm prompt (spec_document 1 texts) (get_format_instructions cs parser)]"
    unfolding doc by auto
next
  show "generate_prompt cs method (Single img) s = doc_to_prompt cs img method s"
    by (simp add: generate_prompt_def)
next
  show "spec_document 1 [first_text, second_text] =
     ''## Page 1\<newline>'' @ first_text @ ''\<newline>\<newline>## Page 2\<newline>'' @ second_text @ ''\<newline>''"
    by (simp add: spec_block_def str.simps digit_def)
qed

theorem generate_prompt_document_witness:
  "map (\<lambda>img. fst (doc_to_prompt printed_texts img ''simple'' initial)) [[''A'', ''B''], [''C'']] =
     map Inr [''A B'', ''C''] \<and>
   gate_open (initial :: string list process) \<and>
   get_provider ''gpt-4'' = Inr ''openai'' \<and>
   generate_prompt printed_texts ''simple'' (Pages [[''A'', ''B''], [''C'']]) initial =
     (Inr ''## Page 1\<newline>A B\<newline>\<newline>## Page 2\<newline>C\<newline>'',
      \<lparr>heap = [], invoke_semaphore = None, trace = [Ocr [''A'', ''B''], Ocr [''C'']]\<rparr>) \<and>
   (\<exists>llm prompt s'.
      ainvoke_die printed_texts ''gpt-4'' ''simple'' () (Pages [[''A'', ''B''], [''C'']]) initial =
        Some (Inr ''## Page 1\<newline>A B\<newline>\<newline>## Page 2\<newline>C\<newline>'', s') \<and>
      trace s' = [Ocr [''A'', ''B''], Ocr [''C''],
        Invoke llm prompt ''## Page 1\<newline>A B\<newline>\<newline>## Page 2\<newline>C\<newline>'' ''{}''])"
proof -
  have t: "map (\<lambda>img. fst (doc_to_prompt printed_texts img ''simple'' initial))
      [[''A'', ''B''], [''C'']] = map Inr [''A B'', ''C'']"
    by (simp add: doc_to_prompt_def printed_texts_def Let_def)
  have o: "gate_open (initial :: string list process)"
    by (simp add: gate_open_def initial_def)
  have g: "get_provider ''gpt-4'' = Inr ''openai''"
    by (simp add: get_provider_def startswith_def)
  have d: "spec_document 1 [''A B'', ''C''] = ''## Page 1\<newline>A B\<newline>\<newline>## Page 2\<newline>C\<newline>''"
    by (simp add: spec_block_def str.simps digit_def)
  have c: "dict printed_texts = (\<lambda>output. output)"
    "chain_ainvoke printed_texts = (\<lambda>llm prompt parser document format_instructions. document)"
    "get_format_instructions printed_texts = (\<lambda>parser. ''{}'')"
    by (simp_all add: printed_texts_def)
  note w = generate_prompt_document [of printed_texts "''simple''" initial
      "[[''A'', ''B''], [''C'']]" "[''A B'', ''C'']" "''gpt-4''" "''openai''" "()"]
  have 1: "generate_prompt printed_texts ''simple'' (Pages [[''A'', ''B''], [''C'']]) initial =
     (Inr ''## Page 1\<newline>A B\<newline>\<newline>## Page 2\<newline>C\<newline>'',
      \<lparr>heap = [], invoke_semaphore = None, trace = [Ocr [''A'', ''B''], Ocr [''C'']]\<rparr>)"
    using w t unfolding d by (simp add: initial_def)
  have 2: "\<exists>llm prompt s'.
      ainvoke_die printed_texts ''gpt-4'' ''simple'' () (Pages [[''A'', ''B''], [''C'']]) initial =
        Some (Inr ''## Page 1\<newline>A B\<newline>\<newline>## Page 2\<newline>C\<newline>'', s') \<and>
      trace s' = [Ocr [''A'', ''B''], Ocr [''C''],
        Invoke llm prompt ''## Page 1\<newline>A B\<newline>\<newline>## Page 2\<newline>C\<newline>'' ''{}'']"
    using w t o g unfolding d c by (simp add: initial_def)
  show ?thesis using t o g 1 2 by blast
qed

section \<open>The delay before the invocation\<close>




section \<open>The shape of the prompt\<close>



section \<open>Errors of the renderer\<close>

text \<open>
  Claim C6. \<^verbatim>\<open>doc_to_prompt\<close> raises the missing-package exception for the method "sft"
  when the sft formatter is not installed, raises the unknown-method exception for every
  method other than "simple", "latin" and "sft", and returns a page text, raising
  nothing, for "simple", for "latin" and for "sft" with the formatter installed.
\<close>

theorem doc_to_prompt_method_errors:
  "(method = ''sft'' \<and> sft cs = None \<longrightarrow>
      fst (doc_to_prompt cs img method s) = Inl (Exception sft_missing_text)) \<and>
   (method \<notin> {''simple'', ''latin'', ''sft''} \<longrightarrow>
      fst (doc_to_prompt cs img method s) = Inl (Exception (''Unknown prompting method: '' @ method))) \<and>
   (method \<in> {''simple'', ''latin''} \<or> method = ''sft'' \<and> sft cs \<noteq> None \<longrightarrow>
      (\<exists>page. fst (doc_to_prompt cs img method s) = Inr page))"
proof (intro conjI impI)
  assume "method = ''sft'' \<and> sft cs = None"
  then show "fst (doc_to_prompt cs img method s) = Inl (Exception sft_missing_text)"
    by (simp add: doc_to_prompt_def Let_def)
next
  assume "method \<notin> {''simple'', ''latin'', ''sft''}"
  then show "fst (doc_to_prompt cs img method s) =
      Inl (Exception (''Unknown prompting method: '' @ method))"
    by (simp add: doc_to_prompt_def Let_def)
next
  assume "method \<in> {''simple'', ''latin''} \<or> method = ''sft'' \<and> sft cs \<noteq> None"
  then consider "method = ''simple''" | "method = ''latin''"
    | "method = ''sft'' \<and> sft cs \<noteq> None" by blast
  then show "\<exists>page. fst (doc_to_prompt cs img method s) = Inr page"
  proof cases
    case 1 then show ?thesis by (simp add: doc_to_prompt_def Let_def)
  next
    case 2 then show ?thesis by (simp add: doc_to_prompt_def Let_def)
  next
    case 3 then show ?thesis by (auto simp add: doc_to_prompt_def Let_def)
  qed
qed

theorem doc_to_prompt_method_errors_witness:
  "sft printed_texts = None \<and>
   fst (doc_to_prompt printed_texts [''A''] ''sft'' initial) = Inl (Exception sft_missing_text) \<and>
   ''xyz'' \<notin> {''simple'', ''latin'', ''sft''} \<and>
   fst (doc_to_prompt printed_texts [''A''] ''xyz'' initial) =
     Inl (Exception ''Unknown prompting method: xyz'') \<and>
   ''latin'' \<in> {''simple'', ''latin''} \<and>
   fst (doc_to_prompt printed_texts [''A''] ''latin'' initial) = Inr ''A'' \<and>
   sft (printed_texts\<lparr>sft := Some (\<lambda>scan img. concat img)\<rparr>) \<noteq> None \<and>
   fst (doc_to_prompt (printed_texts\<lparr>sft := Some (\<lambda>scan img. concat img)\<rparr>)
          [''A'', ''B''] ''sft'' initial) = Inr ''AB''"
proof -
  have n: "sft printed_texts = None" by (simp add: printed_texts_def)
  have x: "''xyz'' \<notin> {''simple'', ''latin'', ''sft''}" by simp
  have l: "fst (doc_to_prompt printed_texts [''A''] ''latin'' initial) = Inr ''A''"
    by (simp add: doc_to_prompt_def printed_texts_def Let_def)
  have i: "fst (doc_to_prompt (printed_texts\<lparr>sft := Some (\<lambda>scan img. concat img)\<rparr>)
          [''A'', ''B''] ''sft'' initial) = Inr ''AB''"
    by (simp add: doc_to_prompt_def printed_texts_def Let_def)
  show ?thesis
    using n x l i
      doc_to_prompt_method_errors [of "''sft''" printed_texts "[''A'']" initial]
      doc_to_prompt_method_errors [of "''xyz''" printed_texts "[''A'']" initial]
      doc_to_prompt_method_errors [of "''latin''" printed_texts "[''A'']" initial]
      doc_to_prompt_method_errors [of "''sft''" "printed_texts\<lparr>sft := Some (\<lambda>scan img. concat img)\<rparr>"
        "[''A'', ''B'']" initial]
    by simp
qed

section \<open>The simple method\<close>

text \<open>
  Claim C8. For every scan, \<^verbatim>\<open>doc_to_prompt\<close> with the method "simple" returns the
  texts of the fragments in the order of the scan, joined by single spaces: nothing for
  an empty scan, and otherwise the first text followed by each further text with one
  space before it. The scan of the two fragments "A" and "B" gives "A B".
\<close>

theorem doc_to_prompt_simple:
  "fst (doc_to_prompt cs img ''simple'' s) = Inr (join '' '' (map frag_text (ocr cs img))) \<and>
   (ocr cs img = [] \<longrightarrow> fst (doc_to_prompt cs img ''simple'' s) = Inr '''') \<and>
   (ocr cs img = x # xs \<longrightarrow>
      fst (doc_to_prompt cs img ''simple'' s) =
        Inr (frag_text x @ concat (map (\<lambda>y. '' '' @ frag_text y) xs))) \<and>
   (ocr cs img = [\<lparr>frag_text = ''A'', bbox = a\<rparr>, \<lparr>frag_text = ''B'', bbox = b\<rparr>] \<longrightarrow>
      fst (doc_to_prompt cs img ''simple'' s) = Inr ''A B'')"
proof -
  have r: "fst (doc_to_prompt cs img ''simple'' s) = Inr (join '' '' (map frag_text (ocr cs img)))"
    by (simp add: doc_to_prompt_def Let_def)
  show ?thesis
    unfolding r by (simp add: join_Cons comp_def)
qed

theorem doc_to_prompt_simple_witness:
  "ocr printed_texts [''A'', ''B''] = [\<lparr>frag_text = ''A'', bbox = ()\<rparr>, \<lparr>frag_text = ''B'', bbox = ()\<rparr>] \<and>
   fst (doc_to_prompt printed_texts [''A'', ''B''] ''simple'' initial) = Inr ''A B'' \<and>
   ocr printed_texts [] = [] \<and>
   fst (doc_to_prompt printed_texts [] ''simple'' initial) = Inr ''''"
proof -
  have o: "ocr printed_texts [''A'', ''B''] =
      [\<lparr>frag_text = ''A'', bbox = ()\<rparr>, \<lparr>frag_text = ''B'', bbox = ()\<rparr>]"
    by (simp add: printed_texts_def)
  have e: "ocr printed_texts [] = []"
    by (simp add: printed_texts_def)
  show ?thesis
    using o e
      doc_to_prompt_simple [of printed_texts "[''A'', ''B'']" initial
        "\<lparr>frag_text = ''A'', bbox = ()\<rparr>" "[\<lparr>frag_text = ''B'', bbox = ()\<rparr>]" "()" "()"]
      doc_to_prompt_simple [of printed_texts "[]" initial]
    by simp
qed

section \<open>The last raise of the client factory\<close>

text \<open>
  Claim C9. The raise at the end of \<^verbatim>\<open>create_llm\<close> is never reached: for every model
  string, either \<^verbatim>\<open>get_provider\<close> raises and \<^verbatim>\<open>create_llm\<close> raises the same
  unknown-model exception, or \<^verbatim>\<open>get_provider\<close> returns one of the four provider names
  and \<^verbatim>\<open>create_llm\<close> returns a client; the result is never the unknown-provider
  exception.
\<close>

theorem create_llm_total:
  "((get_provider model = Inl (Exception (''Unknown model: '' @ model)) \<and>
     create_llm env model = Inl (Exception (''Unknown model: '' @ model))) \<or>
    (\<exists>provider llm. get_provider model = Inr provider \<and>
       provider \<in> {''openai'', ''vertexai'', ''mistral'', ''anthropic''} \<and>
       create_llm env model = Inr llm)) \<and>
   (\<forall>provider. create_llm env model \<noteq> Inl (Exception (''Unknown provider: '' @ provider)))"
proof -
  consider (unknown) "get_provider model = Inl (Exception (''Unknown model: '' @ model))"
    | (openai) "get_provider model = Inr ''openai''"
    | (vertexai) "get_provider model = Inr ''vertexai''"
    | (mistral) "get_provider model = Inr ''mistral''"
    | (anthropic) "get_provider model = Inr ''anthropic''"
    using get_provider_cases [of model] by blast
  then show ?thesis
  proof cases
    case unknown
    then show ?thesis by (simp add: create_llm_def)
  next
    case openai
    then show ?thesis by (simp add: create_llm_def Let_def)
  next
    case vertexai
    then show ?thesis by (simp add: create_llm_def Let_def)
  next
    case mistral
    then show ?thesis by (simp add: create_llm_def Let_def)
  next
    case anthropic
    then show ?thesis by (simp add: create_llm_def Let_def)
  qed
qed

theorem create_llm_total_witness:
  "create_llm Map.empty ''gpt-4-turbo'' =
     Inr (ChatOpenAI ''gpt-4-1106-preview'' [(''temperature'', 0)]) \<and>
   create_llm Map.empty ''llama-2'' = Inl (Exception ''Unknown model: llama-2'') \<and>
   create_llm Map.empty ''llama-2'' \<noteq> Inl (Exception ''Unknown provider: llama-2'')"
proof -
  have g: "create_llm Map.empty ''gpt-4-turbo'' =
      Inr (ChatOpenAI ''gpt-4-1106-preview'' [(''temperature'', 0)])"
    by (simp add: create_llm_def get_provider_def startswith_def)
  have u: "get_provider ''llama-2'' = Inl (Exception ''Unknown model: llama-2'')"
    by (simp add: get_provider_def startswith_def)
  show ?thesis
    using g u create_llm_total [of "''llama-2''" Map.empty] by auto
qed

section \<open>A call with no pages\<close>

text \<open>
  Claim C10. For an empty list of images the loop over the pages builds no block and
  raises nothing, whatever the method, and the document prompt is the empty string with
  no scan made. When the gate admits the call and the model is recognized, the chain is
  still invoked, with the empty document, after the sleep if the provider is anthropic.
\<close>

theorem ainvoke_die_empty_pages:
  "render_pages cs method 0 [] [] s = (Inr [], s) \<and>
   generate_prompt cs method (Pages []) s = (Inr '''', s) \<and>
   (gate_open s \<and> get_provider model = Inr provider \<longrightarrow>
      (\<exists>llm prompt s'.
         create_llm (environ cs) model = Inr llm \<and> create_die_prompt model = Inr prompt \<and>
         ainvoke_die cs model method parser (Pages []) s =
           Some (Inr (dict cs (chain_ainvoke cs llm prompt parser ''''
                                 (get_format_instructions cs parser))), s') \<and>
         trace s' = trace s @ (if provider = ''anthropic'' then [Sleep 10] else []) @
           [Invoke llm prompt '''' (get_format_instructions cs parser)]))"
proof (intro conjI impI)
  show "render_pages cs method 0 [] [] s = (Inr [], s)" by simp
next
  show "generate_prompt cs method (Pages []) s = (Inr '''', s)"
    by (simp add: generate_prompt_def)
next
  assume "gate_open s \<and> get_provider model = Inr provider"
  then have "gate_open s" and "get_provider model = Inr provider" by simp_all
  from ainvoke_die_run [OF this, of cs "method" parser "Pages []"]
  show "\<exists>llm prompt s'.
         create_llm (environ cs) model = Inr llm \<and> create_die_prompt model = Inr prompt \<and>
         ainvoke_die cs model method parser (Pages []) s =
           Some (Inr (dict cs (chain_ainvoke cs llm prompt parser ''''
                                 (get_format_instructions cs parser))), s') \<and>
         trace s' = trace s @ (if provider = ''anthropic'' then [Sleep 10] else []) @
           [Invoke llm prompt '''' (get_format_instructions cs parser)]"
    by (simp add: generate_prompt_def)
qed

theorem ainvoke_die_empty_pages_witness:
  "gate_open (initial :: string list process) \<and>
   get_provider ''gpt-4'' = Inr ''openai'' \<and>
   ainvoke_die printed_texts ''gpt-4'' ''xyz'' () (Pages []) initial =
     Some (Inr '''',
           \<lparr>heap = [\<lparr>permits = 5\<rparr>], invoke_semaphore = Some 0,
            trace = [Invoke (ChatOpenAI ''gpt-4'' [(''temperature'', 0)])
                       [(''system'', sys_prompt_text @ doc_prompt_text)] '''' ''{}'']\<rparr>)"
proof -
  have o: "gate_open (initial :: string list process)"
    by (simp add: gate_open_def initial_def)
  have g: "get_provider ''gpt-4'' = Inr ''openai''"
    by (simp add: get_provider_def startswith_def)
  have r: "ainvoke_die printed_texts ''gpt-4'' ''xyz'' () (Pages []) initial =
     Some (Inr '''',
           \<lparr>heap = [\<lparr>permits = 5\<rparr>], invoke_semaphore = Some 0,
            trace = [Invoke (ChatOpenAI ''gpt-4'' [(''temperature'', 0)])
                       [(''system'', sys_prompt_text @ doc_prompt_text)] '''' ''{}'']\<rparr>)"
    using ainvoke_die_empty_pages [of printed_texts "''xyz''" "initial :: string list process"
        "''gpt-4''" "''openai''" "()"] o g
    by (simp add: ainvoke_die_def get_semaphore_def get_parallelism_def initial_def
        acquire_def release_def ainvoke_die_body_def create_llm_def create_die_prompt_def
        requires_human_message_def sys_message_def generate_prompt_def throttle_def
        printed_texts_def Let_def)
  show ?thesis using o g r by blast
qed

end
